theory Spec2Isabelle
  imports Complex_Main "HOL-Library.Char_ord" "HOL-Library.List_Lexorder"
begin

section \<open>The prediction service of \<^verbatim>\<open>src/api/app.py\<close>\<close>

text \<open>
  The module keeps two globals, \<^verbatim>\<open>model\<close> and \<^verbatim>\<open>REQUIRED_COLUMNS\<close>, written by
  \<^verbatim>\<open>startup_event\<close> and read by the routes \<^verbatim>\<open>root\<close>, \<^verbatim>\<open>health\<close> and \<^verbatim>\<open>predict\<close>.
  Every operation is embedded as a function from the globals to a result and the globals
  afterwards. An exception is a value on the left of a sum.

  Strings are byte lists (UTF-8). Python compares \<^verbatim>\<open>str\<close> by code point, and the
  lexicographic order of UTF-8 bytes is the order of the code points, so \<^verbatim>\<open>sorted\<close> on
  strings is sorting in the lexicographic order of \<^typ>\<open>string\<close>.
  Console output (\<^verbatim>\<open>print\<close>) is not part of the embedding.
\<close>

subsection \<open>Data\<close>

text \<open>
  A request instance is a \<^verbatim>\<open>Dict[str, Any]\<close>: an insertion-ordered dictionary, here an
  association list whose keys are distinct (\<open>wf_instance\<close>). The values are opaque to the
  service, hence a type variable.
\<close>

type_synonym 'v Instance = "(string \<times> 'v) list"

definition wf_instance :: "'v Instance \<Rightarrow> bool" where
  "wf_instance d = distinct (map fst d)"

record 'v PredictRequest =
  instances :: "'v Instance list"

record PredictResponse =
  predictions :: "int list"
  count :: int

text \<open>
  A pandas data frame, as far as the service uses it: the column labels in order and the
  rows, each row aligned with the labels. A cell is \<open>None\<close> where it holds the
  missing-value marker (NaN).
\<close>

record 'v frame =
  columns :: "string list"
  rows :: "'v option list list"

text \<open>
  An element of what \<^verbatim>\<open>model.predict\<close> returns. The service applies \<^verbatim>\<open>int(p)\<close> to it and
  nothing else, so it is represented by what \<^verbatim>\<open>int\<close> does on it: return an integer, or
  raise.
\<close>

datatype raw = Castable int | Uncastable string

text \<open>
  The unpickled estimator: its \<^verbatim>\<open>predict\<close> method (which returns the raw predictions or
  raises an exception with a message) and its attribute \<^verbatim>\<open>feature_names_in_\<close>: absent
  (\<open>None\<close>), a sequence of names (\<open>Some (Inr names)\<close>), or a value on which \<^verbatim>\<open>list\<close>
  raises (\<open>Some (Inl message)\<close>).
\<close>

record 'v estimator =
  predict_fn :: "'v frame \<Rightarrow> string + raw list"
  feature_names_in :: "(string + string list) option"

text \<open>
  The module globals. \<open>invoked\<close> is a ghost field: the frames that have been passed to
  \<^verbatim>\<open>model.predict\<close>, oldest first. The program has no such variable; it is here so that
  "the model was not invoked" and "invoked once" can be stated.
\<close>

record 'v globals =
  model :: "'v estimator option"
  REQUIRED_COLUMNS :: "string list"
  invoked :: "'v frame list"

text \<open>The module as imported: \<^verbatim>\<open>model = None\<close>, \<^verbatim>\<open>REQUIRED_COLUMNS = []\<close>.\<close>

definition module_init :: "'v globals" where
  "module_init = \<lparr>model = None, REQUIRED_COLUMNS = [], invoked = []\<rparr>"

text \<open>
  The detail of an \<^verbatim>\<open>HTTPException\<close>: a text, or a text followed by Python's \<^verbatim>\<open>repr\<close> of a
  list of strings (the f-string \<^verbatim>\<open>f"Missing required columns: {sorted(missing)}"\<close>), which
  is kept as the list.
\<close>

datatype detail = Text string | Text_list string "string list"

text \<open>
  How a route fails: with an \<^verbatim>\<open>HTTPException\<close> it raises itself, or with an exception
  nothing catches.
\<close>

datatype failure = HTTPException (status_code: nat) (detail: detail) | Unhandled string

text \<open>
  What is at \<^verbatim>\<open>MODEL_PATH\<close> when the service starts: no file, a file on which
  \<^verbatim>\<open>joblib.load\<close> raises an \<^verbatim>\<open>Exception\<close> with the given message, or a file that unpickles
  to an estimator.
\<close>

datatype 'v artifact =
    Absent
  | Unreadable string
  | Pickled "'v estimator"

subsection \<open>Startup\<close>

text \<open>The body of the \<^verbatim>\<open>try\<close> block of \<^verbatim>\<open>startup_event\<close> (lines 60 to 63).\<close>

definition load_model :: "'v artifact \<Rightarrow> 'v globals \<Rightarrow> string + 'v globals" where
  "load_model art g =
     (case art of
        Absent \<Rightarrow> Inl ''FileNotFoundError''
      | Unreadable e \<Rightarrow> Inl e
      | Pickled m \<Rightarrow>
          (case feature_names_in m of
             None \<Rightarrow> Inr (g\<lparr>model := Some m, REQUIRED_COLUMNS := []\<rparr>)
           | Some (Inl e) \<Rightarrow> Inl e
           | Some (Inr names) \<Rightarrow> Inr (g\<lparr>model := Some m, REQUIRED_COLUMNS := names\<rparr>)))"

definition startup_event :: "'v artifact \<Rightarrow> 'v globals \<Rightarrow> (failure + unit) \<times> 'v globals" where
  "startup_event art g =
     (case art of
        Absent \<Rightarrow> (Inr (), g\<lparr>model := None\<rparr>)
      | _ \<Rightarrow>
          (case load_model art g of
             Inr g' \<Rightarrow> (Inr (), g')
           | Inl e \<Rightarrow> (Inr (), g\<lparr>model := None\<rparr>)))"

subsection \<open>The routes \<^verbatim>\<open>root\<close> and \<^verbatim>\<open>health\<close>\<close>

record root_response =
  service :: string
  root_model_path :: string
  root_model_loaded :: bool
  required_columns :: "string list"
  endpoints :: "string list"

record health_response =
  status :: string
  model_loaded :: bool
  model_path :: string
  hint :: "string option"

text \<open>\<open>MODEL_PATH\<close> depends on where the module is installed; it is an argument.\<close>

definition root :: "string \<Rightarrow> 'v globals \<Rightarrow> (failure + root_response) \<times> 'v globals" where
  "root MODEL_PATH g =
     (Inr \<lparr>service = ''Breast Cancer Prediction API'',
           root_model_path = MODEL_PATH,
           root_model_loaded = (model g \<noteq> None),
           required_columns = REQUIRED_COLUMNS g,
           endpoints = [''/health'', ''/predict'', ''/docs'']\<rparr>, g)"

definition health :: "string \<Rightarrow> 'v globals \<Rightarrow> (failure + health_response) \<times> 'v globals" where
  "health MODEL_PATH g =
     (if model g = None then
        (Inr \<lparr>status = ''not_ready'', model_loaded = False, model_path = MODEL_PATH,
              hint = Some ''Model did not load. Check terminal logs printed at startup.''\<rparr>, g)
      else
        (Inr \<lparr>status = ''healthy'', model_loaded = True, model_path = MODEL_PATH,
              hint = None\<rparr>, g))"

subsection \<open>Building the frame\<close>

text \<open>
  \<^verbatim>\<open>pd.DataFrame(request.instances)\<close> on a list of dictionaries: the columns are the keys
  of all the dictionaries, each once, in the order of first appearance (pandas from 0.25
  on). Under a column, instance \<open>i\<close> contributes its value for that key, or the
  missing-value marker when it lacks the key; these are the raw cells of the column
  (\<open>column_of\<close>). pandas then gives the column one dtype, inferred from all its raw cells, and
  stores each cell converted to that dtype: integers become floats in a column where
  another instance lacks the key. Row \<open>i\<close> of the frame holds the stored cells of
  instance \<open>i\<close>.

  What pandas does inside is not part of the repository. The embedding takes it as the
  argument \<open>pd\<close>: \<open>malformed pd ds\<close> is the message of the exception when the constructor
  raises on the list \<open>ds\<close>, and \<open>stored pd col x\<close> is the cell \<open>x\<close> as stored in a column whose
  raw cells are \<open>col\<close>.
\<close>

record 'v pandas =
  malformed :: "'v Instance list \<Rightarrow> string option"
  stored :: "'v option list \<Rightarrow> 'v option \<Rightarrow> 'v option"

fun first_seen :: "'a list \<Rightarrow> 'a list \<Rightarrow> 'a list" where
  "first_seen seen [] = []"
| "first_seen seen (k # ks) =
     (if k \<in> set seen then first_seen seen ks else k # first_seen (k # seen) ks)"

definition all_keys :: "'v Instance list \<Rightarrow> string list" where
  "all_keys ds = first_seen [] (concat (map (map fst) ds))"

definition column_of :: "'v Instance list \<Rightarrow> string \<Rightarrow> 'v option list" where
  "column_of ds c = map (\<lambda>d. map_of d c) ds"

definition row_of :: "'v pandas \<Rightarrow> 'v Instance list \<Rightarrow> string list \<Rightarrow> 'v Instance \<Rightarrow> 'v option list" where
  "row_of pd ds cols d = map (\<lambda>c. stored pd (column_of ds c) (map_of d c)) cols"

definition DataFrame :: "'v pandas \<Rightarrow> 'v Instance list \<Rightarrow> string + 'v frame" where
  "DataFrame pd ds =
     (case malformed pd ds of
        Some e \<Rightarrow> Inl e
      | None \<Rightarrow> Inr \<lparr>columns = all_keys ds, rows = map (row_of pd ds (all_keys ds)) ds\<rparr>)"

text \<open>
  \<^verbatim>\<open>X[REQUIRED_COLUMNS]\<close>: the listed columns in the listed order, each with the cells it
  has in \<open>X\<close>; a label that is not a column of \<open>X\<close> raises \<^verbatim>\<open>KeyError\<close>.
\<close>

definition cell :: "string list \<Rightarrow> 'v option list \<Rightarrow> string \<Rightarrow> 'v option" where
  "cell cols r c = (case map_of (zip cols r) c of None \<Rightarrow> None | Some v \<Rightarrow> v)"

definition getitem :: "'v frame \<Rightarrow> string list \<Rightarrow> string + 'v frame" where
  "getitem X cs =
     (if set cs \<subseteq> set (columns X)
      then Inr \<lparr>columns = cs, rows = map (\<lambda>r. map (cell (columns X) r) cs) (rows X)\<rparr>
      else Inl ''KeyError'')"

subsection \<open>The route \<^verbatim>\<open>predict\<close>\<close>

text \<open>Lines 110 to 117: the required columns are enforced when there are any.\<close>

definition enforce :: "string list \<Rightarrow> 'v frame \<Rightarrow> failure + 'v frame" where
  "enforce required X =
     (if required \<noteq> [] then
        (let missing = set required - set (columns X) in
         if missing \<noteq> {} then
           Inl (HTTPException 400
                  (Text_list ''Missing required columns: '' (sorted_list_of_set missing)))
         else (case getitem X required of
                 Inl e \<Rightarrow> Inl (Unhandled e)
               | Inr X' \<Rightarrow> Inr X'))
      else Inr X)"

text \<open>The list comprehension \<^verbatim>\<open>[int(p) for p in preds]\<close>: the first cast that raises ends it.\<close>

fun int_all :: "raw list \<Rightarrow> string + int list" where
  "int_all [] = Inr []"
| "int_all (Uncastable e # ps) = Inl e"
| "int_all (Castable n # ps) = (case int_all ps of Inl e \<Rightarrow> Inl e | Inr ns \<Rightarrow> Inr (n # ns))"

text \<open>Line 124. The casts are outside every \<^verbatim>\<open>try\<close>.\<close>

definition respond :: "raw list \<Rightarrow> failure + PredictResponse" where
  "respond preds =
     (case int_all preds of
        Inl e \<Rightarrow> Inl (Unhandled e)
      | Inr ns \<Rightarrow> Inr \<lparr>predictions = ns, count = int (length preds)\<rparr>)"

definition predict ::
  "'v pandas \<Rightarrow> 'v PredictRequest \<Rightarrow> 'v globals
     \<Rightarrow> (failure + PredictResponse) \<times> 'v globals" where
  "predict pd request g =
     (case model g of
        None \<Rightarrow>
          (Inl (HTTPException 503 (Text ''Model not loaded. Check /health and startup logs.'')), g)
      | Some m \<Rightarrow>
          if instances request = [] then
            (Inl (HTTPException 400 (Text ''No instances provided'')), g)
          else
            (case DataFrame pd (instances request) of
               Inl e \<Rightarrow> (Inl (HTTPException 400 (Text (''Invalid input format: '' @ e))), g)
             | Inr X \<Rightarrow>
                 (case enforce (REQUIRED_COLUMNS g) X of
                    Inl f \<Rightarrow> (Inl f, g)
                  | Inr X' \<Rightarrow>
                      (let g' = g\<lparr>invoked := invoked g @ [X']\<rparr> in
                       case predict_fn m X' of
                         Inl e \<Rightarrow> (Inl (HTTPException 500 (Text (''Prediction failed: '' @ e))), g')
                       | Inr preds \<Rightarrow> (respond preds, g')))))"

subsection \<open>Example inputs\<close>

text \<open>
  Numeric values as the examples need them: Python integers and floats. \<open>numeric_pandas\<close>
  is pandas on instances with such values: the constructor does not raise; a column whose
  raw cells are all integers is an integer column and keeps them; any other column (a
  float or a missing value among its raw cells) is a float column, in which an integer is
  stored as the float of the same value. The examples use small integers only, which
  floats hold exactly.
\<close>

datatype number = Integer int | Floating real

fun value_of :: "number \<Rightarrow> real" where
  "value_of (Integer n) = of_int n"
| "value_of (Floating x) = x"

fun is_integer :: "number option \<Rightarrow> bool" where
  "is_integer (Some (Integer n)) = True"
| "is_integer x = False"

fun to_float :: "number option \<Rightarrow> number option" where
  "to_float (Some (Integer n)) = Some (Floating (of_int n))"
| "to_float x = x"

definition numeric_stored :: "number option list \<Rightarrow> number option \<Rightarrow> number option" where
  "numeric_stored col x = (if list_all is_integer col then x else to_float x)"

definition numeric_pandas :: "number pandas" where
  "numeric_pandas = \<lparr>malformed = (\<lambda>ds. None), stored = numeric_stored\<rparr>"

text \<open>
  The scenario of the specification: the schema is \<open>a, b\<close> and the estimator labels a row
  \<open>1\<close> when its first value is greater than its second and \<open>0\<close> otherwise (a comparison
  with the missing-value marker is false). The estimator is positional, as estimators are:
  it sees the values of a row in the order of the frame's columns, and it raises when the
  frame does not have two columns. \<open>unnamed_model\<close> is the same estimator fitted on plain
  arrays, so that it has no \<^verbatim>\<open>feature_names_in_\<close>. \<open>triple_model\<close> is an estimator whose
  \<^verbatim>\<open>predict\<close> returns three labels whatever the frame. The globals are those that
  \<open>startup_event\<close> leaves after loading each of them.
\<close>

fun scenario_label :: "number option list \<Rightarrow> raw" where
  "scenario_label [Some a, Some b] = Castable (if value_of a > value_of b then 1 else 0)"
| "scenario_label r = Castable 0"

definition scenario_predict :: "number frame \<Rightarrow> string + raw list" where
  "scenario_predict X =
     (if length (columns X) = 2 then Inr (map scenario_label (rows X))
      else Inl ''X has the wrong number of features'')"

definition scenario_model :: "number estimator" where
  "scenario_model = \<lparr>predict_fn = scenario_predict, feature_names_in = Some (Inr [''a'', ''b''])\<rparr>"

definition unnamed_model :: "number estimator" where
  "unnamed_model = \<lparr>predict_fn = scenario_predict, feature_names_in = None\<rparr>"

definition triple_model :: "number estimator" where
  "triple_model = \<lparr>predict_fn = (\<lambda>X. Inr [Castable 1, Castable 0, Castable 1]),
                    feature_names_in = Some (Inr [''a'', ''b''])\<rparr>"

definition scenario_globals :: "number globals" where
  "scenario_globals = snd (startup_event (Pickled scenario_model) module_init)"

definition unnamed_globals :: "number globals" where
  "unnamed_globals = snd (startup_event (Pickled unnamed_model) module_init)"

definition triple_globals :: "number globals" where
  "triple_globals = snd (startup_event (Pickled triple_model) module_init)"

section \<open>Properties\<close>

subsection \<open>The frame and the required columns\<close>

lemma set_first_seen: "set (first_seen seen ks) = set ks - set seen"
  by (induction seen ks rule: first_seen.induct) auto

lemma distinct_first_seen: "distinct (first_seen seen ks)"
  by (induction seen ks rule: first_seen.induct) (auto simp: set_first_seen)

lemma set_all_keys: "set (all_keys ds) = (\<Union>d\<in>set ds. fst ` set d)"
  by (auto simp: all_keys_def set_first_seen)

lemma distinct_all_keys: "distinct (all_keys ds)"
  by (simp add: all_keys_def distinct_first_seen)

lemma cell_row_of:
  "c \<in> set cols \<Longrightarrow>
     cell cols (row_of pd ds cols d) c = stored pd (column_of ds c) (map_of d c)"
  by (simp add: cell_def row_of_def map_of_zip_map)

lemma DataFrame_accepted:
  "malformed pd ds = None \<Longrightarrow>
     DataFrame pd ds
       = Inr \<lparr>columns = all_keys ds, rows = map (row_of pd ds (all_keys ds)) ds\<rparr>"
  by (simp add: DataFrame_def)

lemma DataFrame_rejected: "malformed pd ds = Some e \<Longrightarrow> DataFrame pd ds = Inl e"
  by (simp add: DataFrame_def)

lemma getitem_rows:
  assumes "set cs \<subseteq> set cols"
  shows "getitem \<lparr>columns = cols, rows = map (row_of pd ds cols) es\<rparr> cs
           = Inr \<lparr>columns = cs, rows = map (row_of pd ds cs) es\<rparr>"
proof -
  have "map (cell cols (row_of pd ds cols d)) cs = row_of pd ds cs d" for d
    using assms by (auto simp: cell_row_of row_of_def[of pd ds cs])
  then show ?thesis
    using assms by (simp add: getitem_def comp_def)
qed

lemma enforce_none: "enforce [] X = Inr X"
  by (simp add: enforce_def)

lemma enforce_missing:
  assumes "\<not> set required \<subseteq> set (columns X)"
  shows "enforce required X = Inl (HTTPException 400
           (Text_list ''Missing required columns: ''
              (sorted_list_of_set (set required - set (columns X)))))"
proof -
  from assms have "required \<noteq> []" and "set required - set (columns X) \<noteq> {}"
    by auto
  then show ?thesis
    by (simp add: enforce_def)
qed

lemma enforce_present:
  assumes "required \<noteq> []" and "set required \<subseteq> set cols"
  shows "enforce required \<lparr>columns = cols, rows = map (row_of pd ds cols) es\<rparr>
           = Inr \<lparr>columns = required, rows = map (row_of pd ds required) es\<rparr>"
proof -
  from assms(2) have "set required - set cols = {}"
    by auto
  then show ?thesis
    using assms by (simp add: enforce_def getitem_rows)
qed

lemma int_all_Castable: "int_all (map Castable ns) = Inr ns"
  by (induction ns) auto

lemma int_all_Inr: "int_all ps = Inr ns \<Longrightarrow> ps = map Castable ns"
  by (induction ps arbitrary: ns rule: int_all.induct) (auto split: sum.splits)

lemma predict_not_loaded:
  "model g = None \<Longrightarrow>
     predict pd request g
       = (Inl (HTTPException 503 (Text ''Model not loaded. Check /health and startup logs.'')), g)"
  by (simp add: predict_def)

lemma predict_no_instances:
  "model g = Some m \<Longrightarrow> instances request = [] \<Longrightarrow>
     predict pd request g = (Inl (HTTPException 400 (Text ''No instances provided'')), g)"
  by (simp add: predict_def)

lemma predict_bad_format:
  "model g = Some m \<Longrightarrow> instances request \<noteq> [] \<Longrightarrow>
   malformed pd (instances request) = Some e \<Longrightarrow>
     predict pd request g
       = (Inl (HTTPException 400 (Text (''Invalid input format: '' @ e))), g)"
  by (simp add: predict_def DataFrame_def)

lemma predict_refused:
  "model g = Some m \<Longrightarrow> instances request \<noteq> [] \<Longrightarrow>
   DataFrame pd (instances request) = Inr X \<Longrightarrow>
   enforce (REQUIRED_COLUMNS g) X = Inl f \<Longrightarrow>
     predict pd request g = (Inl f, g)"
  by (simp add: predict_def)

lemma predict_forwarded:
  "model g = Some m \<Longrightarrow> instances request \<noteq> [] \<Longrightarrow>
   DataFrame pd (instances request) = Inr X \<Longrightarrow>
   enforce (REQUIRED_COLUMNS g) X = Inr X' \<Longrightarrow>
     predict pd request g
       = (case predict_fn m X' of
            Inl e \<Rightarrow> Inl (HTTPException 500 (Text (''Prediction failed: '' @ e)))
          | Inr preds \<Rightarrow> respond preds,
          g\<lparr>invoked := invoked g @ [X']\<rparr>)"
  by (simp add: predict_def Let_def split: sum.splits)

subsection \<open>What \<open>respond\<close> cannot return\<close>

lemma respond_not_HTTPException: "respond preds \<noteq> Inl (HTTPException c d)"
  by (simp add: respond_def split: sum.splits)

subsection \<open>Instances that agree on the required columns\<close>

lemma map_of_superset:
  assumes "wf_instance d'" and "set d \<subseteq> set d'" and "c \<in> fst ` set d"
  shows "map_of d' c = map_of d c"
proof -
  from assms(3) obtain v where v: "map_of d c = Some v"
    by (metis domD dom_map_of_conv_image_fst)
  then have "(c, v) \<in> set d"
    by (rule map_of_SomeD)
  with assms(2) have "(c, v) \<in> set d'"
    by blast
  with assms(1) have "map_of d' c = Some v"
    by (simp add: wf_instance_def)
  with v show ?thesis
    by simp
qed

lemma row_of_superset:
  assumes "wf_instance d'" and "set d \<subseteq> set d'" and "set cols \<subseteq> fst ` set d"
  shows "row_of pd [d'] cols d' = row_of pd [d] cols d"
proof -
  have "map_of d' c = map_of d c" if "c \<in> set cols" for c
    using assms that by (auto intro: map_of_superset)
  then show ?thesis
    by (simp add: row_of_def column_of_def)
qed

subsection \<open>The example inputs after startup\<close>

lemma scenario_globals_simps:
  "model scenario_globals = Some scenario_model"
  "REQUIRED_COLUMNS scenario_globals = [''a'', ''b'']"
  "invoked scenario_globals = []"
  by (simp_all add: scenario_globals_def startup_event_def load_model_def scenario_model_def
      module_init_def)

lemma unnamed_globals_simps:
  "model unnamed_globals = Some unnamed_model"
  "REQUIRED_COLUMNS unnamed_globals = []"
  "invoked unnamed_globals = []"
  by (simp_all add: unnamed_globals_def startup_event_def load_model_def unnamed_model_def
      module_init_def)

lemma triple_globals_simps:
  "model triple_globals = Some triple_model"
  "REQUIRED_COLUMNS triple_globals = [''a'', ''b'']"
  "invoked triple_globals = []"
  by (simp_all add: triple_globals_def startup_event_def load_model_def triple_model_def
      module_init_def)

lemma numeric_pandas_simps:
  "malformed numeric_pandas ds = None"
  "stored numeric_pandas = numeric_stored"
  by (simp_all add: numeric_pandas_def)

section \<open>The claims\<close>

subsection \<open>C1: one prediction per instance, in order\<close>

text \<open>
  C1 as stated fails. Line 124 answers with the casts of whatever \<^verbatim>\<open>model.predict\<close> returned
  and sets \<^verbatim>\<open>count = len(preds)\<close>; nothing compares that length with the number of
  instances. With an estimator that returns three labels, a request with one instance
  passes every validation step, the inference succeeds, and the response has three
  predictions and \<open>count\<close> three.
\<close>

theorem three_predictions_for_one_instance_counterexample:
  "model triple_globals = Some triple_model
   \<and> REQUIRED_COLUMNS triple_globals = [''a'', ''b'']
   \<and> length (instances \<lparr>instances = [[(''a'', Integer 5), (''b'', Integer 2)]]\<rparr>) = 1
   \<and> predict_fn triple_model
        \<lparr>columns = [''a'', ''b''], rows = [[Some (Integer 5), Some (Integer 2)]]\<rparr>
       = Inr [Castable 1, Castable 0, Castable 1]
   \<and> fst (predict numeric_pandas \<lparr>instances = [[(''a'', Integer 5), (''b'', Integer 2)]]\<rparr>
             triple_globals)
       = Inr \<lparr>predictions = [1, 0, 1], count = 3\<rparr>
   \<and> invoked (snd (predict numeric_pandas
                      \<lparr>instances = [[(''a'', Integer 5), (''b'', Integer 2)]]\<rparr> triple_globals))
       = [\<lparr>columns = [''a'', ''b''], rows = [[Some (Integer 5), Some (Integer 2)]]\<rparr>]"
proof -
  let ?ds = "[[(''a'', Integer 5), (''b'', Integer 2)]] :: number Instance list"
  let ?X = "\<lparr>columns = [''a'', ''b''],
             rows = map (row_of numeric_pandas ?ds [''a'', ''b'']) ?ds\<rparr>"
  have keys: "all_keys ?ds = [''a'', ''b'']"
    by (simp add: all_keys_def)
  have frame: "DataFrame numeric_pandas (instances \<lparr>instances = ?ds\<rparr>) = Inr ?X"
    by (simp add: DataFrame_def numeric_pandas_simps keys)
  have enforced: "enforce (REQUIRED_COLUMNS triple_globals) ?X = Inr ?X"
    using enforce_present [of "[''a'', ''b'']" "[''a'', ''b'']" numeric_pandas ?ds ?ds]
    by (simp add: triple_globals_simps)
  have "predict numeric_pandas \<lparr>instances = ?ds\<rparr> triple_globals
          = (Inr \<lparr>predictions = [1, 0, 1], count = 3\<rparr>,
             triple_globals\<lparr>invoked :=
               [\<lparr>columns = [''a'', ''b''], rows = [[Some (Integer 5), Some (Integer 2)]]\<rparr>]\<rparr>)"
    using predict_forwarded [OF triple_globals_simps(1) _ frame enforced]
    by (simp add: triple_globals_simps triple_model_def row_of_def column_of_def
        numeric_pandas_simps numeric_stored_def respond_def)
  then show ?thesis
    by (simp add: triple_globals_simps triple_model_def)
qed

text \<open>
  C1 (amended). When the model is loaded, the batch is not empty, pandas builds the frame,
  no required column is missing, \<^verbatim>\<open>model.predict\<close> returns one raw prediction per row of the
  frame it is given, and every raw prediction casts to an integer, then \<open>predict\<close> answers
  with the casts of the raw predictions in the order the estimator returned them, one per
  instance, and with \<open>count\<close> the number of instances. Row \<open>i\<close> of the frame the estimator
  was given is the row of instance \<open>i\<close> (its cells under the forwarded columns, as pandas
  stores them), so prediction \<open>i\<close> is the estimator's prediction for instance \<open>i\<close>. The
  estimator is invoked once, on that frame.
\<close>

theorem predict_one_prediction_per_instance:
  assumes loaded: "model g = Some m"
    and nonempty: "instances request \<noteq> []"
    and accepted: "malformed pd (instances request) = None"
    and present: "set (REQUIRED_COLUMNS g) \<subseteq> set (all_keys (instances request))"
    and cols: "cols = (if REQUIRED_COLUMNS g = [] then all_keys (instances request)
                       else REQUIRED_COLUMNS g)"
    and X: "X = \<lparr>columns = cols,
                  rows = map (row_of pd (instances request) cols) (instances request)\<rparr>"
    and inferred: "predict_fn m X = Inr preds"
    and per_row: "length preds = length (rows X)"
    and castable: "int_all preds = Inr ns"
  shows "predict pd request g
           = (Inr \<lparr>predictions = ns, count = int (length (instances request))\<rparr>,
              g\<lparr>invoked := invoked g @ [X]\<rparr>)
         \<and> length ns = length (instances request)
         \<and> (\<forall>i < length (instances request).
               rows X ! i = row_of pd (instances request) cols (instances request ! i)
               \<and> preds ! i = Castable (ns ! i))"
proof -
  let ?ds = "instances request"
  have frame: "DataFrame pd ?ds
                 = Inr \<lparr>columns = all_keys ?ds, rows = map (row_of pd ?ds (all_keys ?ds)) ?ds\<rparr>"
    using accepted by (rule DataFrame_accepted)
  have enforced: "enforce (REQUIRED_COLUMNS g)
                    \<lparr>columns = all_keys ?ds, rows = map (row_of pd ?ds (all_keys ?ds)) ?ds\<rparr>
                  = Inr X"
  proof (cases "REQUIRED_COLUMNS g = []")
    case True
    then show ?thesis
      using cols X by (simp add: enforce_none)
  next
    case False
    then show ?thesis
      using cols X present by (simp add: enforce_present)
  qed
  have preds: "preds = map Castable ns"
    using castable by (rule int_all_Inr)
  have len: "length ns = length ?ds"
    using per_row preds X by simp
  have "respond preds = Inr \<lparr>predictions = ns, count = int (length ?ds)\<rparr>"
    using castable len preds by (simp add: respond_def)
  then have "predict pd request g
               = (Inr \<lparr>predictions = ns, count = int (length ?ds)\<rparr>,
                  g\<lparr>invoked := invoked g @ [X]\<rparr>)"
    using predict_forwarded [OF loaded nonempty frame enforced] inferred by simp
  moreover have "\<forall>i < length ?ds.
      rows X ! i = row_of pd ?ds cols (?ds ! i) \<and> preds ! i = Castable (ns ! i)"
    using len preds X by simp
  ultimately show ?thesis
    using len by blast
qed

theorem predict_one_prediction_per_instance_witness:
  "fst (predict numeric_pandas
          \<lparr>instances = [[(''a'', Integer 5), (''b'', Integer 2)],
                        [(''a'', Integer 1), (''b'', Integer 9)]]\<rparr> scenario_globals)
     = Inr \<lparr>predictions = [1, 0], count = 2\<rparr>"
proof -
  let ?ds = "[[(''a'', Integer 5), (''b'', Integer 2)],
              [(''a'', Integer 1), (''b'', Integer 9)]] :: number Instance list"
  let ?X = "\<lparr>columns = [''a'', ''b''],
             rows = map (row_of numeric_pandas (instances \<lparr>instances = ?ds\<rparr>) [''a'', ''b''])
                      (instances \<lparr>instances = ?ds\<rparr>)\<rparr>"
  have "predict numeric_pandas \<lparr>instances = ?ds\<rparr> scenario_globals
          = (Inr \<lparr>predictions = [1, 0], count = int (length (instances \<lparr>instances = ?ds\<rparr>))\<rparr>,
             scenario_globals\<lparr>invoked := invoked scenario_globals @ [?X]\<rparr>)
        \<and> length [1, 0 :: int] = length (instances \<lparr>instances = ?ds\<rparr>)
        \<and> (\<forall>i < length (instances \<lparr>instances = ?ds\<rparr>).
               rows ?X ! i = row_of numeric_pandas (instances \<lparr>instances = ?ds\<rparr>) [''a'', ''b'']
                               (instances \<lparr>instances = ?ds\<rparr> ! i)
               \<and> [Castable 1, Castable 0] ! i = Castable ([1, 0] ! i))"
    by (rule predict_one_prediction_per_instance
          [where m = scenario_model and cols = "[''a'', ''b'']"
             and preds = "[Castable 1, Castable 0]"])
       (simp_all add: scenario_globals_simps numeric_pandas_simps all_keys_def scenario_model_def
          scenario_predict_def row_of_def column_of_def numeric_stored_def)
  then show ?thesis
    by simp
qed

subsection \<open>C2: missing required columns\<close>

text \<open>
  C2 as stated fails. The columns of the frame are the keys of all the instances together,
  so a required name that one instance lacks and another has is not missing: in the batch
  below the second instance has no \<open>b\<close>, the estimator is invoked on a frame whose second
  row has the missing-value marker under \<open>b\<close> (which makes \<open>b\<close> a float column), and the
  request is answered.
\<close>

theorem missing_in_one_instance_counterexample:
  "model scenario_globals = Some scenario_model
   \<and> REQUIRED_COLUMNS scenario_globals = [''a'', ''b'']
   \<and> ''b'' \<notin> fst ` set [(''a'', Integer 1)]
   \<and> fst (predict numeric_pandas
             \<lparr>instances = [[(''a'', Integer 5), (''b'', Integer 2)], [(''a'', Integer 1)]]\<rparr>
             scenario_globals)
       = Inr \<lparr>predictions = [1, 0], count = 2\<rparr>
   \<and> invoked (snd (predict numeric_pandas
                      \<lparr>instances = [[(''a'', Integer 5), (''b'', Integer 2)], [(''a'', Integer 1)]]\<rparr>
                      scenario_globals))
       = [\<lparr>columns = [''a'', ''b''],
           rows = [[Some (Integer 5), Some (Floating 2)], [Some (Integer 1), None]]\<rparr>]"
proof -
  let ?ds = "[[(''a'', Integer 5), (''b'', Integer 2)], [(''a'', Integer 1)]]
               :: number Instance list"
  let ?X = "\<lparr>columns = [''a'', ''b''],
             rows = map (row_of numeric_pandas ?ds [''a'', ''b'']) ?ds\<rparr>"
  have keys: "all_keys ?ds = [''a'', ''b'']"
    by (simp add: all_keys_def)
  have frame: "DataFrame numeric_pandas (instances \<lparr>instances = ?ds\<rparr>) = Inr ?X"
    by (simp add: DataFrame_def numeric_pandas_simps keys)
  have enforced: "enforce (REQUIRED_COLUMNS scenario_globals) ?X = Inr ?X"
    using enforce_present [of "[''a'', ''b'']" "[''a'', ''b'']" numeric_pandas ?ds ?ds]
    by (simp add: scenario_globals_simps)
  have "predict numeric_pandas \<lparr>instances = ?ds\<rparr> scenario_globals
          = (Inr \<lparr>predictions = [1, 0], count = 2\<rparr>,
             scenario_globals\<lparr>invoked :=
               [\<lparr>columns = [''a'', ''b''],
                 rows = [[Some (Integer 5), Some (Floating 2)], [Some (Integer 1), None]]\<rparr>]\<rparr>)"
    using predict_forwarded [OF scenario_globals_simps(1) _ frame enforced]
    by (simp add: scenario_globals_simps scenario_model_def scenario_predict_def row_of_def
        column_of_def numeric_pandas_simps numeric_stored_def respond_def)
  then show ?thesis
    by (simp add: scenario_globals_simps)
qed

text \<open>
  C2 (amended). When the model is loaded, the batch is not empty and pandas builds the
  frame, if some required name is a key of no instance of the batch, then \<open>predict\<close> fails
  with status 400 and the detail \<^verbatim>\<open>Missing required columns:\<close> followed by the required names
  that are keys of no instance, each once, in ascending order; the estimator is not invoked
  and the globals are unchanged.
\<close>

theorem predict_missing_columns:
  assumes loaded: "model g = Some m"
    and nonempty: "instances request \<noteq> []"
    and accepted: "malformed pd (instances request) = None"
    and absent: "\<not> set (REQUIRED_COLUMNS g) \<subseteq> (\<Union>d\<in>set (instances request). fst ` set d)"
    and missing: "missing = sorted_list_of_set
                   (set (REQUIRED_COLUMNS g) - (\<Union>d\<in>set (instances request). fst ` set d))"
  shows "predict pd request g
           = (Inl (HTTPException 400 (Text_list ''Missing required columns: '' missing)), g)
         \<and> invoked (snd (predict pd request g)) = invoked g
         \<and> set missing = set (REQUIRED_COLUMNS g) - (\<Union>d\<in>set (instances request). fst ` set d)
         \<and> sorted missing \<and> distinct missing"
proof -
  let ?ds = "instances request"
  let ?X = "\<lparr>columns = all_keys ?ds, rows = map (row_of pd ?ds (all_keys ?ds)) ?ds\<rparr>"
  have frame: "DataFrame pd ?ds = Inr ?X"
    using accepted by (rule DataFrame_accepted)
  have "\<not> set (REQUIRED_COLUMNS g) \<subseteq> set (columns ?X)"
    using absent by (simp add: set_all_keys)
  then have "enforce (REQUIRED_COLUMNS g) ?X
               = Inl (HTTPException 400 (Text_list ''Missing required columns: '' missing))"
    using missing by (simp add: enforce_missing set_all_keys)
  then have "predict pd request g
               = (Inl (HTTPException 400 (Text_list ''Missing required columns: '' missing)), g)"
    using predict_refused [OF loaded nonempty frame] by simp
  then show ?thesis
    using missing by simp
qed

theorem predict_missing_columns_witness:
  "fst (predict numeric_pandas \<lparr>instances = [[(''a'', Integer 5)]]\<rparr> scenario_globals)
     = Inl (HTTPException 400 (Text_list ''Missing required columns: '' [''b'']))
   \<and> invoked (snd (predict numeric_pandas \<lparr>instances = [[(''a'', Integer 5)]]\<rparr>
                      scenario_globals)) = []"
proof -
  let ?ds = "[[(''a'', Integer 5)]] :: number Instance list"
  have "sorted_list_of_set (set [''a'', ''b''] - set [''a'']) = [''b'']"
    by code_simp
  then have missing: "[''b''] = sorted_list_of_set
      (set (REQUIRED_COLUMNS scenario_globals)
         - (\<Union>d\<in>set (instances \<lparr>instances = ?ds\<rparr>). fst ` set d))"
    by (simp add: scenario_globals_simps)
  have absent: "\<not> set (REQUIRED_COLUMNS scenario_globals)
                    \<subseteq> (\<Union>d\<in>set (instances \<lparr>instances = ?ds\<rparr>). fst ` set d)"
    by (simp add: scenario_globals_simps)
  show ?thesis
    using predict_missing_columns
            [OF scenario_globals_simps(1) _ _ absent missing, of numeric_pandas]
    by (simp add: numeric_pandas_simps scenario_globals_simps)
qed

subsection \<open>C3: the readiness gate\<close>

text \<open>
  C3. While \<^verbatim>\<open>model\<close> is \<open>None\<close>, \<open>predict\<close> fails with status 503 on every request, whatever
  its instances and whatever pandas would do with them; nothing else is looked at, and the
  globals are unchanged.
\<close>

theorem predict_not_ready:
  assumes "model g = None"
  shows "predict pd request g
           = (Inl (HTTPException 503 (Text ''Model not loaded. Check /health and startup logs.'')), g)"
  using assms by (rule predict_not_loaded)

theorem predict_not_ready_witness:
  "model (module_init :: number globals) = None
   \<and> fst (predict numeric_pandas \<lparr>instances = [[(''a'', Integer 5), (''b'', Integer 2)]]\<rparr> module_init)
       = Inl (HTTPException 503 (Text ''Model not loaded. Check /health and startup logs.''))
   \<and> fst (predict numeric_pandas \<lparr>instances = []\<rparr> module_init)
       = Inl (HTTPException 503 (Text ''Model not loaded. Check /health and startup logs.''))"
proof -
  have none: "model (module_init :: number globals) = None"
    by (simp add: module_init_def)
  show ?thesis
    using none predict_not_ready [OF none, of numeric_pandas "\<lparr>instances = [[(''a'', Integer 5), (''b'', Integer 2)]]\<rparr>"]
      predict_not_ready [OF none, of numeric_pandas "\<lparr>instances = []\<rparr>"]
    by simp
qed

subsection \<open>C4: key order and extra keys\<close>

text \<open>
  C4 as stated fails. The columns are selected and ordered by \<^verbatim>\<open>REQUIRED_COLUMNS\<close> only under
  \<^verbatim>\<open>if REQUIRED_COLUMNS:\<close>. After a startup that loaded an estimator without
  \<^verbatim>\<open>feature_names_in_\<close> the list is empty, every instance is valid, and the estimator is
  given the columns in the order of the instance's keys: the same instance with its keys
  in the other order gets the other label.
\<close>

theorem key_order_without_schema_counterexample:
  "model unnamed_globals = Some unnamed_model
   \<and> REQUIRED_COLUMNS unnamed_globals = []
   \<and> fst (predict numeric_pandas \<lparr>instances = [[(''a'', Integer 5), (''b'', Integer 2)]]\<rparr> unnamed_globals)
       = Inr \<lparr>predictions = [1], count = 1\<rparr>
   \<and> fst (predict numeric_pandas \<lparr>instances = [[(''b'', Integer 2), (''a'', Integer 5)]]\<rparr> unnamed_globals)
       = Inr \<lparr>predictions = [0], count = 1\<rparr>
   \<and> invoked (snd (predict numeric_pandas \<lparr>instances = [[(''b'', Integer 2), (''a'', Integer 5)]]\<rparr> unnamed_globals))
       = [\<lparr>columns = [''b'', ''a''], rows = [[Some (Integer 2), Some (Integer 5)]]\<rparr>]"
proof -
  have run: "predict numeric_pandas \<lparr>instances = [d]\<rparr> unnamed_globals
          = (case scenario_predict \<lparr>columns = all_keys [d], rows = [row_of numeric_pandas [d] (all_keys [d]) d]\<rparr> of
               Inl e \<Rightarrow> Inl (HTTPException 500 (Text (''Prediction failed: '' @ e)))
             | Inr preds \<Rightarrow> respond preds,
             unnamed_globals\<lparr>invoked := [\<lparr>columns = all_keys [d], rows = [row_of numeric_pandas [d] (all_keys [d]) d]\<rparr>]\<rparr>)"
    for d :: "number Instance"
    using predict_forwarded [of unnamed_globals unnamed_model "\<lparr>instances = [d]\<rparr>" numeric_pandas
        "\<lparr>columns = all_keys [d], rows = [row_of numeric_pandas [d] (all_keys [d]) d]\<rparr>"
        "\<lparr>columns = all_keys [d], rows = [row_of numeric_pandas [d] (all_keys [d]) d]\<rparr>"]
    by (simp add: unnamed_globals_simps DataFrame_def numeric_pandas_simps enforce_none unnamed_model_def)
  show ?thesis
    by (simp add: run unnamed_globals_simps all_keys_def row_of_def column_of_def
        numeric_pandas_simps numeric_stored_def scenario_predict_def respond_def)
qed

text \<open>
  C4 (amended). When the model is loaded and \<^verbatim>\<open>REQUIRED_COLUMNS\<close> is not empty, let \<open>d\<close> be
  an instance that has every required column and \<open>d'\<close> an instance with the entries of
  \<open>d\<close> in any order together with extra entries whose keys are not required columns
  (pandas building a frame from either). Then \<open>predict\<close> gives the same result for the
  request \<open>[d']\<close> as for \<open>[d]\<close>, and in both the estimator is invoked once, on the frame
  whose columns are \<^verbatim>\<open>REQUIRED_COLUMNS\<close> in that order and whose one row holds the values of
  \<open>d\<close> under them, each as pandas stores it in a column of its own.
\<close>

theorem predict_key_order_and_extra_keys:
  assumes loaded: "model g = Some m"
    and schema: "REQUIRED_COLUMNS g \<noteq> []"
    and valid: "set (REQUIRED_COLUMNS g) \<subseteq> fst ` set d"
    and wf: "wf_instance d" "wf_instance d'"
    and same: "set d' = set d \<union> set extra"
    and unrelated: "fst ` set extra \<inter> set (REQUIRED_COLUMNS g) = {}"
    and accepted: "malformed pd [d] = None" "malformed pd [d'] = None"
    and X: "X = \<lparr>columns = REQUIRED_COLUMNS g,
                  rows = [map (\<lambda>c. stored pd [map_of d c] (map_of d c)) (REQUIRED_COLUMNS g)]\<rparr>"
  shows "fst (predict pd \<lparr>instances = [d']\<rparr> g) = fst (predict pd \<lparr>instances = [d]\<rparr> g)
         \<and> invoked (snd (predict pd \<lparr>instances = [d]\<rparr> g)) = invoked g @ [X]
         \<and> invoked (snd (predict pd \<lparr>instances = [d']\<rparr> g)) = invoked g @ [X]"
proof -
  let ?req = "REQUIRED_COLUMNS g"
  have sub: "set d \<subseteq> set d'"
    using same by blast
  have rows: "row_of pd [d'] ?req d' = row_of pd [d] ?req d"
    using wf(2) sub valid by (rule row_of_superset)
  have valid': "set ?req \<subseteq> fst ` set d'"
    using valid sub by blast
  have run: "predict pd \<lparr>instances = [e]\<rparr> g
          = (case predict_fn m \<lparr>columns = ?req, rows = [row_of pd [e] ?req e]\<rparr> of
               Inl e \<Rightarrow> Inl (HTTPException 500 (Text (''Prediction failed: '' @ e)))
             | Inr preds \<Rightarrow> respond preds,
             g\<lparr>invoked := invoked g @ [\<lparr>columns = ?req, rows = [row_of pd [e] ?req e]\<rparr>]\<rparr>)"
    if "malformed pd [e] = None" and "set ?req \<subseteq> fst ` set e" for e
  proof -
    have frame: "DataFrame pd (instances \<lparr>instances = [e]\<rparr>)
                   = Inr \<lparr>columns = all_keys [e], rows = map (row_of pd [e] (all_keys [e])) [e]\<rparr>"
      using that(1) by (simp add: DataFrame_accepted)
    have "set ?req \<subseteq> set (all_keys [e])"
      using that(2) by (simp add: set_all_keys)
    then have enforced: "enforce ?req \<lparr>columns = all_keys [e], rows = map (row_of pd [e] (all_keys [e])) [e]\<rparr>
                 = Inr \<lparr>columns = ?req, rows = map (row_of pd [e] ?req) [e]\<rparr>"
      using schema by (rule enforce_present [rotated])
    show ?thesis
      using predict_forwarded [OF loaded _ frame enforced] by simp
  qed
  have X': "X = \<lparr>columns = ?req, rows = [row_of pd [d] ?req d]\<rparr>"
    using X by (simp add: row_of_def column_of_def)
  show ?thesis
    by (simp add: run [OF accepted(1) valid] run [OF accepted(2) valid'] rows X')
qed

theorem predict_key_order_and_extra_keys_witness:
  "fst (predict numeric_pandas \<lparr>instances = [[(''zip'', Integer 7), (''b'', Integer 2), (''a'', Integer 5)]]\<rparr> scenario_globals)
     = Inr \<lparr>predictions = [1], count = 1\<rparr>
   \<and> fst (predict numeric_pandas \<lparr>instances = [[(''a'', Integer 5), (''b'', Integer 2)]]\<rparr> scenario_globals)
     = Inr \<lparr>predictions = [1], count = 1\<rparr>
   \<and> invoked (snd (predict numeric_pandas \<lparr>instances = [[(''zip'', Integer 7), (''b'', Integer 2), (''a'', Integer 5)]]\<rparr>
                      scenario_globals))
     = [\<lparr>columns = [''a'', ''b''], rows = [[Some (Integer 5), Some (Integer 2)]]\<rparr>]"
proof -
  let ?d = "[(''a'', Integer 5), (''b'', Integer 2)] :: number Instance"
  let ?d' = "[(''zip'', Integer 7), (''b'', Integer 2), (''a'', Integer 5)] :: number Instance"
  let ?X = "\<lparr>columns = [''a'', ''b''], rows = [[Some (Integer 5), Some (Integer 2)]]\<rparr> :: number frame"
  have same: "set ?d' = set ?d \<union> set [(''zip'', Integer 7)]"
    by auto
  have inv: "fst (predict numeric_pandas \<lparr>instances = [?d']\<rparr> scenario_globals)
               = fst (predict numeric_pandas \<lparr>instances = [?d]\<rparr> scenario_globals)
        \<and> invoked (snd (predict numeric_pandas \<lparr>instances = [?d]\<rparr> scenario_globals))
               = invoked scenario_globals @ [?X]
        \<and> invoked (snd (predict numeric_pandas \<lparr>instances = [?d']\<rparr> scenario_globals))
               = invoked scenario_globals @ [?X]"
    by (rule predict_key_order_and_extra_keys
          [where m = scenario_model and extra = "[(''zip'', Integer 7)]", OF _ _ _ _ _ same])
       (simp_all add: scenario_globals_simps wf_instance_def numeric_pandas_simps numeric_stored_def)
  have frame: "DataFrame numeric_pandas (instances \<lparr>instances = [?d]\<rparr>)
                 = Inr \<lparr>columns = [''a'', ''b''], rows = map (row_of numeric_pandas [?d] [''a'', ''b'']) [?d]\<rparr>"
    by (simp add: DataFrame_def numeric_pandas_simps all_keys_def)
  have enforced: "enforce (REQUIRED_COLUMNS scenario_globals)
                    \<lparr>columns = [''a'', ''b''], rows = map (row_of numeric_pandas [?d] [''a'', ''b'']) [?d]\<rparr>
                  = Inr \<lparr>columns = [''a'', ''b''], rows = map (row_of numeric_pandas [?d] [''a'', ''b'']) [?d]\<rparr>"
    using enforce_present [of "[''a'', ''b'']" "[''a'', ''b'']" numeric_pandas "[?d]" "[?d]"]
    by (simp add: scenario_globals_simps)
  have "fst (predict numeric_pandas \<lparr>instances = [?d]\<rparr> scenario_globals)
          = Inr \<lparr>predictions = [1], count = 1\<rparr>"
    using predict_forwarded [OF scenario_globals_simps(1) _ frame enforced]
    by (simp add: scenario_model_def scenario_predict_def row_of_def column_of_def
        numeric_pandas_simps numeric_stored_def respond_def)
  with inv show ?thesis
    by (simp add: scenario_globals_simps)
qed

subsection \<open>C5: the empty batch\<close>

text \<open>
  C5. When the model is loaded and the list of instances is empty, \<open>predict\<close> fails with
  status 400 and the detail \<^verbatim>\<open>No instances provided\<close>, and the estimator is not invoked.
\<close>

theorem predict_empty_batch:
  assumes "model g = Some m" and "instances request = []"
  shows "predict pd request g
           = (Inl (HTTPException 400 (Text ''No instances provided'')), g)
         \<and> invoked (snd (predict pd request g)) = invoked g"
  using assms by (simp add: predict_no_instances)

theorem predict_empty_batch_witness:
  "model scenario_globals = Some scenario_model
   \<and> fst (predict numeric_pandas \<lparr>instances = []\<rparr> scenario_globals)
       = Inl (HTTPException 400 (Text ''No instances provided''))
   \<and> invoked (snd (predict numeric_pandas \<lparr>instances = []\<rparr> scenario_globals)) = []"
proof -
  have loaded: "model scenario_globals = Some scenario_model"
    by (simp add: scenario_globals_simps)
  show ?thesis
    using loaded predict_empty_batch [OF loaded, of "\<lparr>instances = []\<rparr>" numeric_pandas]
    by (simp add: scenario_globals_simps)
qed

subsection \<open>C6: a failing inference\<close>

text \<open>
  C6. When a request reaches \<^verbatim>\<open>model.predict\<close> (the model is loaded, the batch is not empty,
  pandas built the frame \<open>X\<close> and the required columns left the frame \<open>X'\<close>) and the
  estimator raises with message \<open>e\<close>, then \<open>predict\<close> fails with status 500 and the detail
  \<^verbatim>\<open>Prediction failed:\<close> followed by \<open>e\<close>, and the estimator has been invoked exactly once
  more than before, on \<open>X'\<close>: there is no second call.
\<close>

theorem predict_inference_error:
  assumes loaded: "model g = Some m"
    and nonempty: "instances request \<noteq> []"
    and frame: "DataFrame pd (instances request) = Inr X"
    and enforced: "enforce (REQUIRED_COLUMNS g) X = Inr X'"
    and raised: "predict_fn m X' = Inl e"
  shows "predict pd request g
           = (Inl (HTTPException 500 (Text (''Prediction failed: '' @ e))),
              g\<lparr>invoked := invoked g @ [X']\<rparr>)
         \<and> invoked (snd (predict pd request g)) = invoked g @ [X']"
  using predict_forwarded [OF loaded nonempty frame enforced] raised by simp

theorem predict_inference_error_witness:
  "fst (predict numeric_pandas \<lparr>instances = [[(''a'', Integer 5), (''b'', Integer 2), (''c'', Integer 1)]]\<rparr> unnamed_globals)
     = Inl (HTTPException 500 (Text ''Prediction failed: X has the wrong number of features''))
   \<and> invoked (snd (predict numeric_pandas \<lparr>instances = [[(''a'', Integer 5), (''b'', Integer 2), (''c'', Integer 1)]]\<rparr>
                      unnamed_globals))
     = [\<lparr>columns = [''a'', ''b'', ''c''], rows = [[Some (Integer 5), Some (Integer 2), Some (Integer 1)]]\<rparr>]"
proof -
  let ?ds = "[[(''a'', Integer 5), (''b'', Integer 2), (''c'', Integer 1)]] :: number Instance list"
  let ?X = "\<lparr>columns = [''a'', ''b'', ''c''], rows = [[Some (Integer 5), Some (Integer 2), Some (Integer 1)]]\<rparr> :: number frame"
  have frame: "DataFrame numeric_pandas (instances \<lparr>instances = ?ds\<rparr>) = Inr ?X"
    by (simp add: DataFrame_def numeric_pandas_simps all_keys_def row_of_def column_of_def
        numeric_stored_def)
  have enforced: "enforce (REQUIRED_COLUMNS unnamed_globals) ?X = Inr ?X"
    by (simp add: unnamed_globals_simps enforce_none)
  have raised: "predict_fn unnamed_model ?X = Inl ''X has the wrong number of features''"
    by (simp add: unnamed_model_def scenario_predict_def)
  show ?thesis
    using predict_inference_error [OF unnamed_globals_simps(1) _ frame enforced raised]
    by (simp add: unnamed_globals_simps)
qed

subsection \<open>C7: validation comes before the model\<close>

text \<open>
  C7. Each validation failure (the model is not loaded, the batch is empty, pandas rejects
  the instances, a required column is a key of no instance) makes \<open>predict\<close> fail with
  status 503 or 400 and leaves the globals, and with them the record of invocations, as
  they were. And whenever \<open>predict\<close> fails with status 503 or 400, the estimator has not
  been invoked for that request.
\<close>

theorem predict_validates_before_model:
  "((model g = None \<or> instances request = [] \<or> malformed pd (instances request) \<noteq> None
       \<or> \<not> set (REQUIRED_COLUMNS g) \<subseteq> (\<Union>d\<in>set (instances request). fst ` set d))
      \<longrightarrow> (\<exists>c d. fst (predict pd request g) = Inl (HTTPException c d)
                   \<and> (c = 503 \<or> c = 400))
          \<and> snd (predict pd request g) = g)
   \<and> (fst (predict pd request g) = Inl (HTTPException c d) \<and> (c = 503 \<or> c = 400)
      \<longrightarrow> snd (predict pd request g) = g
          \<and> invoked (snd (predict pd request g)) = invoked g)"
proof -
  have refused: "(\<exists>c d. fst (predict pd request g) = Inl (HTTPException c d)
                   \<and> (c = 503 \<or> c = 400))
          \<and> snd (predict pd request g) = g"
    if bad: "model g = None \<or> instances request = [] \<or> malformed pd (instances request) \<noteq> None
       \<or> \<not> set (REQUIRED_COLUMNS g) \<subseteq> (\<Union>d\<in>set (instances request). fst ` set d)"
  proof (cases "model g")
    case None
    then show ?thesis
      by (simp add: predict_not_loaded)
  next
    case (Some m)
    show ?thesis
    proof (cases "instances request = []")
      case True
      with Some show ?thesis
        by (simp add: predict_no_instances)
    next
      case nonempty: False
      show ?thesis
      proof (cases "malformed pd (instances request)")
        case (Some e)
        with \<open>model g = Some m\<close> nonempty show ?thesis
          by (simp add: predict_bad_format)
      next
        case None
        let ?ds = "instances request"
        let ?X = "\<lparr>columns = all_keys ?ds, rows = map (row_of pd ?ds (all_keys ?ds)) ?ds\<rparr>"
        have frame: "DataFrame pd ?ds = Inr ?X"
          using None by (rule DataFrame_accepted)
        from bad \<open>model g = Some m\<close> nonempty None
        have "\<not> set (REQUIRED_COLUMNS g) \<subseteq> set (columns ?X)"
          by (simp add: set_all_keys)
        then have "enforce (REQUIRED_COLUMNS g) ?X = Inl (HTTPException 400
           (Text_list ''Missing required columns: ''
              (sorted_list_of_set (set (REQUIRED_COLUMNS g) - set (columns ?X)))))"
          by (rule enforce_missing)
        then show ?thesis
          using predict_refused [OF \<open>model g = Some m\<close> nonempty frame] by simp
      qed
    qed
  qed
  have untouched: "snd (predict pd request g) = g"
    if err: "fst (predict pd request g) = Inl (HTTPException c d) \<and> (c = 503 \<or> c = 400)"
  proof -
    from err have "c \<noteq> 500"
      by auto
    with err show ?thesis
      by (auto simp: predict_def Let_def respond_not_HTTPException
          split: option.splits if_splits sum.splits)
  qed
  show ?thesis
    using refused untouched by simp
qed

theorem predict_validates_before_model_witness:
  "fst (predict numeric_pandas \<lparr>instances = [[(''a'', Integer 5)]]\<rparr> scenario_globals)
     = Inl (HTTPException 400 (Text_list ''Missing required columns: '' [''b'']))
   \<and> invoked (snd (predict numeric_pandas \<lparr>instances = [[(''a'', Integer 5)]]\<rparr> scenario_globals)) = []"
proof -
  let ?ds = "[[(''a'', Integer 5)]] :: number Instance list"
  let ?X = "\<lparr>columns = [''a''], rows = [[Some (Integer 5)]]\<rparr> :: number frame"
  have frame: "DataFrame numeric_pandas (instances \<lparr>instances = ?ds\<rparr>) = Inr ?X"
    by (simp add: DataFrame_def numeric_pandas_simps all_keys_def row_of_def column_of_def
        numeric_stored_def)
  have "sorted_list_of_set (set [''a'', ''b''] - set [''a'']) = [''b'']"
    by code_simp
  then have "enforce (REQUIRED_COLUMNS scenario_globals) ?X
          = Inl (HTTPException 400 (Text_list ''Missing required columns: '' [''b'']))"
    using enforce_missing [of "[''a'', ''b'']" ?X] by (simp add: scenario_globals_simps)
  then have out: "fst (predict numeric_pandas \<lparr>instances = ?ds\<rparr> scenario_globals)
          = Inl (HTTPException 400 (Text_list ''Missing required columns: '' [''b'']))"
    using predict_refused [OF scenario_globals_simps(1) _ frame] by simp
  show ?thesis
    using out predict_validates_before_model [of scenario_globals "\<lparr>instances = ?ds\<rparr>" numeric_pandas
        400 "Text_list ''Missing required columns: '' [''b'']"]
    by (simp add: scenario_globals_simps)
qed

subsection \<open>C8: startup failures and the health route\<close>

text \<open>
  C8. When the artifact is absent, when loading it raises, or when reading the feature
  names of the loaded estimator raises, \<open>startup_event\<close> returns normally, \<^verbatim>\<open>model\<close> is
  \<open>None\<close> afterwards, and \<open>health\<close> then answers \<^verbatim>\<open>not_ready\<close> with \<^verbatim>\<open>model_loaded\<close> false.
  When the artifact is loaded and its feature names are absent or listed, \<open>startup_event\<close>
  returns normally, \<^verbatim>\<open>model\<close> is the estimator, and \<open>health\<close> then answers \<^verbatim>\<open>healthy\<close> with
  \<^verbatim>\<open>model_loaded\<close> true.
\<close>

theorem startup_failure_is_swallowed:
  "((art = Absent \<or> art = Unreadable e
       \<or> (art = Pickled m \<and> feature_names_in m = Some (Inl e)))
      \<longrightarrow> startup_event art g = (Inr (), g\<lparr>model := None\<rparr>)
          \<and> model (snd (startup_event art g)) = None
          \<and> fst (health p (snd (startup_event art g)))
              = Inr \<lparr>status = ''not_ready'', model_loaded = False, model_path = p,
                     hint = Some ''Model did not load. Check terminal logs printed at startup.''\<rparr>)
   \<and> (art = Pickled m \<and> (feature_names_in m = None \<or> feature_names_in m = Some (Inr names))
      \<longrightarrow> fst (startup_event art g) = Inr ()
          \<and> model (snd (startup_event art g)) = Some m
          \<and> fst (health p (snd (startup_event art g)))
              = Inr \<lparr>status = ''healthy'', model_loaded = True, model_path = p, hint = None\<rparr>)"
proof -
  have failed: "startup_event art g = (Inr (), g\<lparr>model := None\<rparr>)"
    if "art = Absent \<or> art = Unreadable e
          \<or> (art = Pickled m \<and> feature_names_in m = Some (Inl e))"
    using that by (auto simp: startup_event_def load_model_def)
  have loaded: "fst (startup_event art g) = Inr () \<and> model (snd (startup_event art g)) = Some m"
    if "art = Pickled m \<and> (feature_names_in m = None \<or> feature_names_in m = Some (Inr names))"
    using that by (auto simp: startup_event_def load_model_def)
  show ?thesis
    using failed loaded by (auto simp: health_def)
qed

theorem startup_failure_is_swallowed_witness:
  "fst (startup_event (Absent :: number artifact) module_init) = Inr ()
   \<and> fst (health ''models/final_model.joblib''
            (snd (startup_event (Unreadable ''UnpicklingError'' :: number artifact) module_init)))
       = Inr \<lparr>status = ''not_ready'', model_loaded = False,
              model_path = ''models/final_model.joblib'',
              hint = Some ''Model did not load. Check terminal logs printed at startup.''\<rparr>
   \<and> fst (health ''models/final_model.joblib''
            (snd (startup_event (Pickled scenario_model) module_init)))
       = Inr \<lparr>status = ''healthy'', model_loaded = True,
              model_path = ''models/final_model.joblib'', hint = None\<rparr>"
proof -
  have names: "feature_names_in scenario_model = Some (Inr [''a'', ''b''])"
    by (simp add: scenario_model_def)
  show ?thesis
    using startup_failure_is_swallowed
            [of "Absent :: number artifact" "''''" scenario_model module_init
                "''models/final_model.joblib''" "[]"]
          startup_failure_is_swallowed
            [of "Unreadable ''UnpicklingError'' :: number artifact" "''UnpicklingError''"
                scenario_model module_init "''models/final_model.joblib''" "[]"]
          startup_failure_is_swallowed
            [of "Pickled scenario_model" "''''" scenario_model module_init
                "''models/final_model.joblib''" "[''a'', ''b'']"]
          names
    by (simp add: health_def)
qed

subsection \<open>C9: no required columns\<close>

text \<open>
  C9. When the model is loaded, \<^verbatim>\<open>REQUIRED_COLUMNS\<close> is empty, the batch is not empty and
  pandas builds the frame \<open>X\<close>, the required-column step returns \<open>X\<close> itself: nothing is
  reported missing, nothing is selected or reordered. The estimator is invoked on \<open>X\<close>,
  whose columns are all the keys of all the instances, in the order the frame
  construction gave them, and the result of \<open>predict\<close> is what the estimator makes of \<open>X\<close>.
\<close>

theorem predict_without_schema:
  assumes loaded: "model g = Some m"
    and nonempty: "instances request \<noteq> []"
    and accepted: "malformed pd (instances request) = None"
    and noschema: "REQUIRED_COLUMNS g = []"
    and X: "X = \<lparr>columns = all_keys (instances request),
                  rows = map (row_of pd (instances request) (all_keys (instances request)))
                           (instances request)\<rparr>"
  shows "DataFrame pd (instances request) = Inr X
         \<and> enforce (REQUIRED_COLUMNS g) X = Inr X
         \<and> predict pd request g
             = (case predict_fn m X of
                  Inl e \<Rightarrow> Inl (HTTPException 500 (Text (''Prediction failed: '' @ e)))
                | Inr preds \<Rightarrow> respond preds,
                g\<lparr>invoked := invoked g @ [X]\<rparr>)
         \<and> set (columns X) = (\<Union>d\<in>set (instances request). fst ` set d)"
proof -
  have frame: "DataFrame pd (instances request) = Inr X"
    using accepted X by (simp add: DataFrame_accepted)
  have enforced: "enforce (REQUIRED_COLUMNS g) X = Inr X"
    using noschema by (simp add: enforce_none)
  show ?thesis
    using frame enforced predict_forwarded [OF loaded nonempty frame enforced] X
    by (simp add: set_all_keys)
qed

theorem predict_without_schema_witness:
  "fst (predict numeric_pandas
          \<lparr>instances = [[(''b'', Integer 2), (''a'', Integer 5)],
                        [(''zip'', Integer 7), (''a'', Integer 1)]]\<rparr>
          unnamed_globals)
     = Inl (HTTPException 500 (Text ''Prediction failed: X has the wrong number of features''))
   \<and> invoked (snd (predict numeric_pandas
                      \<lparr>instances = [[(''b'', Integer 2), (''a'', Integer 5)],
                                    [(''zip'', Integer 7), (''a'', Integer 1)]]\<rparr>
                      unnamed_globals))
     = [\<lparr>columns = [''b'', ''a'', ''zip''],
         rows = [[Some (Floating 2), Some (Integer 5), None],
                 [None, Some (Integer 1), Some (Floating 7)]]\<rparr>]"
proof -
  let ?ds = "[[(''b'', Integer 2), (''a'', Integer 5)],
              [(''zip'', Integer 7), (''a'', Integer 1)]] :: number Instance list"
  let ?X = "\<lparr>columns = [''b'', ''a'', ''zip''],
             rows = [[Some (Floating 2), Some (Integer 5), None],
                 [None, Some (Integer 1), Some (Floating 7)]]\<rparr> :: number frame"
  have X: "?X = \<lparr>columns = all_keys (instances \<lparr>instances = ?ds\<rparr>),
                  rows = map (row_of numeric_pandas (instances \<lparr>instances = ?ds\<rparr>)
                             (all_keys (instances \<lparr>instances = ?ds\<rparr>)))
                           (instances \<lparr>instances = ?ds\<rparr>)\<rparr>"
    by (simp add: all_keys_def row_of_def column_of_def numeric_pandas_simps numeric_stored_def)
  show ?thesis
    using predict_without_schema [OF unnamed_globals_simps(1) _ _ unnamed_globals_simps(2) X]
    by (simp add: numeric_pandas_simps unnamed_globals_simps unnamed_model_def scenario_predict_def)
qed

subsection \<open>C10: the routes do not write the globals\<close>

text \<open>
  C10. Whatever \<open>predict\<close> returns, \<^verbatim>\<open>model\<close> and \<^verbatim>\<open>REQUIRED_COLUMNS\<close> are afterwards what they
  were before; \<open>health\<close> and \<open>root\<close> leave the globals as they were. \<open>startup_event\<close>
  does write them: on an absent artifact it sets \<^verbatim>\<open>model\<close> to \<open>None\<close>.
\<close>

theorem routes_leave_globals:
  "model (snd (predict pd request g)) = model g
   \<and> REQUIRED_COLUMNS (snd (predict pd request g)) = REQUIRED_COLUMNS g
   \<and> snd (health p g) = g
   \<and> snd (root p g) = g
   \<and> snd (startup_event Absent g) = g\<lparr>model := None\<rparr>"
proof -
  have "model (snd (predict pd request g)) = model g
        \<and> REQUIRED_COLUMNS (snd (predict pd request g)) = REQUIRED_COLUMNS g"
    by (simp add: predict_def Let_def split: option.splits sum.splits)
  then show ?thesis
    by (simp add: health_def root_def startup_event_def)
qed

theorem routes_leave_globals_witness:
  "model (snd (predict numeric_pandas \<lparr>instances = [[(''a'', Integer 5), (''b'', Integer 2)]]\<rparr> scenario_globals))
     = Some scenario_model
   \<and> REQUIRED_COLUMNS (snd (predict numeric_pandas \<lparr>instances = [[(''a'', Integer 5), (''b'', Integer 2)]]\<rparr>
                               scenario_globals))
     = [''a'', ''b'']
   \<and> REQUIRED_COLUMNS (snd (health ''models/final_model.joblib'' scenario_globals)) = [''a'', ''b'']
   \<and> REQUIRED_COLUMNS (snd (root ''models/final_model.joblib'' scenario_globals)) = [''a'', ''b'']
   \<and> model (snd (startup_event Absent scenario_globals)) = None"
  using routes_leave_globals
          [of numeric_pandas "\<lparr>instances = [[(''a'', Integer 5), (''b'', Integer 2)]]\<rparr>" scenario_globals
              "''models/final_model.joblib''"]
  by (simp add: scenario_globals_simps)

end
